theory Spec2Isabelle
  imports Main "HOL-Library.Word"
begin

section \<open>The types cast.inl works on\<close>

text \<open>
  cast.inl is a header of templates: its inputs are types (\<open>R\<close>, \<open>T\<close>), three
  template arguments of \<open>cast_wrapper\<close> and one object \<open>t\<close>. A compilation either
  fails or yields the value the instantiated function returns, so every function below
  returns \<open>failure + 'a\<close>, with \<open>Inl\<close> the failed compilation.
\<close>

type_synonym byte = "8 word"

text \<open>
  The class types named in cast.inl, with their lane count \<open>N\<close>, and
  \<open>other_type n\<close> for any other class, of which only its size \<open>n\<close> in bytes matters here.
\<close>

datatype simd_type =
    uint8 nat | uint16 nat | uint32 nat | uint64 nat
  | float32 nat | float64 nat
  | mask_int8 nat | mask_int16 nat | mask_int32 nat | mask_int64 nat
  | mask_float32 nat | mask_float64 nat
  | other_type nat

text \<open>
  \<open>StaticAssert msg\<close>: a \<open>SIMDPP_STATIC_ASSERT\<close> failed with this message.
  \<open>AmbiguousSpecialization\<close>: more than one partial specialization matches.
  \<open>MissingReturn\<close>: the body of a function that returns a value ends with no return.
  \<open>Elsewhere what\<close>: the outcome is decided by a declaration that is not in cast.inl
  (a member a type does not declare here, a conversion, the primary template of
  \<open>cast_wrapper\<close>); the model says nothing more about it.
\<close>

datatype failure =
  StaticAssert string | AmbiguousSpecialization | MissingReturn | Elsewhere string

definition SIMDPP_STATIC_ASSERT :: "bool \<Rightarrow> string \<Rightarrow> failure + 'a \<Rightarrow> failure + 'a" where
  "SIMDPP_STATIC_ASSERT cond msg body = (if cond then body else Inl (StaticAssert msg))"

text \<open>An object: its static type and its storage, byte by byte.\<close>

record val =
  vtype :: simd_type
  bytes :: "byte list"

subsection \<open>Declarations of the library that cast.inl uses\<close>

text \<open>
  Modelled from the spec: \<open>sizeof\<close> of the vector and mask classes of simdpp/types.h,
  which is not among the sources. A vector is its lanes side by side; a mask
  "physically aliases a vector of some base element kind" of the same lane count.
  A class that is neither is counted as one lane of its whole size.
\<close>

fun elem_bytes :: "simd_type \<Rightarrow> nat" where
  "elem_bytes (uint8 N) = 1"
| "elem_bytes (uint16 N) = 2"
| "elem_bytes (uint32 N) = 4"
| "elem_bytes (uint64 N) = 8"
| "elem_bytes (float32 N) = 4"
| "elem_bytes (float64 N) = 8"
| "elem_bytes (mask_int8 N) = 1"
| "elem_bytes (mask_int16 N) = 2"
| "elem_bytes (mask_int32 N) = 4"
| "elem_bytes (mask_int64 N) = 8"
| "elem_bytes (mask_float32 N) = 4"
| "elem_bytes (mask_float64 N) = 8"
| "elem_bytes (other_type n) = n"

fun num_lanes :: "simd_type \<Rightarrow> nat" where
  "num_lanes (uint8 N) = N"
| "num_lanes (uint16 N) = N"
| "num_lanes (uint32 N) = N"
| "num_lanes (uint64 N) = N"
| "num_lanes (float32 N) = N"
| "num_lanes (float64 N) = N"
| "num_lanes (mask_int8 N) = N"
| "num_lanes (mask_int16 N) = N"
| "num_lanes (mask_int32 N) = N"
| "num_lanes (mask_int64 N) = N"
| "num_lanes (mask_float32 N) = N"
| "num_lanes (mask_float64 N) = N"
| "num_lanes (other_type n) = 1"

definition sizeof :: "simd_type \<Rightarrow> nat" where
  "sizeof T = num_lanes T * elem_bytes T"

text \<open>
  Modelled from the spec: \<open>is_mask\<close> of simdpp/types/traits.h, which is not among the
  sources; the caller of \<open>cast_wrapper\<close> passes it as \<open>IsRMask\<close> and \<open>IsLMask\<close>.
\<close>

fun is_mask :: "simd_type \<Rightarrow> bool" where
  "is_mask (mask_int8 N) = True"
| "is_mask (mask_int16 N) = True"
| "is_mask (mask_int32 N) = True"
| "is_mask (mask_int64 N) = True"
| "is_mask (mask_float32 N) = True"
| "is_mask (mask_float64 N) = True"
| "is_mask T = False"

text \<open>
  Modelled from the spec: the member \<open>size_tag\<close> of the vector and mask classes, which
  is not among the sources: "a compile-time property grouping vector and mask types by
  physical storage width, independent of element kind", the "classification of a type by
  total physical storage width". The tag is the storage width in bits. A class that is
  neither a vector nor a mask declares none.
\<close>

fun size_tag :: "simd_type \<Rightarrow> failure + nat" where
  "size_tag (other_type n) = Inl (Elsewhere ''size_tag'')"
| "size_tag T = Inr (8 * sizeof T)"

text \<open>
  Modelled from the spec: the enumerators of simdpp/detail/cast.h, which is not among
  the sources, numbered as C++ numbers an enumeration, in the order the spec lists the
  strategies. The template parameter they are passed to is an \<open>unsigned\<close>.
\<close>

definition CAST_MASK_MEMCPY :: nat where "CAST_MASK_MEMCPY = 0"
definition CAST_MASK_UNMASK :: nat where "CAST_MASK_UNMASK = 1"
definition CAST_MASK_REMASK :: nat where "CAST_MASK_REMASK = 2"

text \<open>
  Modelled from the spec: the member \<open>unmask\<close> of the mask classes, which is not among
  the sources: "the mask value must expose an operation that yields its physical bit
  pattern interpreted as that base vector type". Only a mask declares it.
\<close>

fun unmask_type :: "simd_type \<Rightarrow> simd_type option" where
  "unmask_type (mask_int8 N) = Some (uint8 N)"
| "unmask_type (mask_int16 N) = Some (uint16 N)"
| "unmask_type (mask_int32 N) = Some (uint32 N)"
| "unmask_type (mask_int64 N) = Some (uint64 N)"
| "unmask_type (mask_float32 N) = Some (float32 N)"
| "unmask_type (mask_float64 N) = Some (float64 N)"
| "unmask_type T = None"

definition unmask :: "val \<Rightarrow> failure + val" where
  "unmask t =
     (case unmask_type (vtype t) of
        None \<Rightarrow> Inl (Elsewhere ''unmask'')
      | Some V \<Rightarrow> Inr \<lparr>vtype = V, bytes = bytes t\<rparr>)"

text \<open>
  Modelled from the spec: \<open>(RR) make_zero()\<close> of the library, which is not among the
  sources: the all-zero vector of type \<open>RR\<close>.
\<close>

definition make_zero :: "simd_type \<Rightarrow> val" where
  "make_zero RR = \<lparr>vtype = RR, bytes = replicate (sizeof RR) 0\<rparr>"

text \<open>
  Modelled from the spec: the layout of a vector of simdpp/types.h, which is not among
  the sources: its \<open>n\<close> lanes of \<open>k\<close> bytes each, side by side and in order.
\<close>

primrec lanes :: "nat \<Rightarrow> nat \<Rightarrow> byte list \<Rightarrow> byte list list" where
  "lanes k 0 bs = []"
| "lanes k (Suc n) bs = take k bs # lanes k n (drop k bs)"

definition lanes_of :: "val \<Rightarrow> byte list list" where
  "lanes_of v = lanes (elem_bytes (vtype v)) (num_lanes (vtype v)) (bytes v)"

text \<open>The number that the bytes of a lane hold, least significant byte first.\<close>

fun lane_int :: "byte list \<Rightarrow> int" where
  "lane_int [] = 0"
| "lane_int (b # bs) = uint b + 256 * lane_int bs"

text \<open>
  Modelled from the spec: \<open>cmp_neq\<close> of simdpp/core/cmp_neq.h, which is not among the
  sources: "a lane-wise not-equal comparison that yields a mask value of the matching
  mask type". Two integer lanes are not equal when their bits differ. Two floating-point
  lanes of \<open>w\<close> bits, \<open>m\<close> of them the mantissa, compare as numbers: a NaN (the bits
  below the sign bit are a greater number than those of infinity) is not equal to
  anything, the two zeros are equal to each other, and otherwise the bits decide.
  \<open>mask_of\<close> is the matching mask type. A true lane of the resulting mask has all bits
  set, a false lane none.
\<close>

definition float_neq :: "nat \<Rightarrow> nat \<Rightarrow> byte list \<Rightarrow> byte list \<Rightarrow> bool" where
  "float_neq w m x y =
     (let mx = lane_int x mod 2 ^ (w - 1);
          my = lane_int y mod 2 ^ (w - 1);
          inf = 2 ^ (w - 1) - 2 ^ m
      in mx > inf \<or> my > inf \<or> (x \<noteq> y \<and> (mx \<noteq> 0 \<or> my \<noteq> 0)))"

fun lane_neq :: "simd_type \<Rightarrow> byte list \<Rightarrow> byte list \<Rightarrow> bool" where
  "lane_neq (float32 N) x y = float_neq 32 23 x y"
| "lane_neq (float64 N) x y = float_neq 64 52 x y"
| "lane_neq T x y = (x \<noteq> y)"

fun mask_of :: "simd_type \<Rightarrow> simd_type option" where
  "mask_of (uint8 N) = Some (mask_int8 N)"
| "mask_of (uint16 N) = Some (mask_int16 N)"
| "mask_of (uint32 N) = Some (mask_int32 N)"
| "mask_of (uint64 N) = Some (mask_int64 N)"
| "mask_of (float32 N) = Some (mask_float32 N)"
| "mask_of (float64 N) = Some (mask_float64 N)"
| "mask_of T = None"

definition mask_lane :: "nat \<Rightarrow> bool \<Rightarrow> byte list" where
  "mask_lane k b = replicate k (if b then 255 else 0)"

definition cmp_neq :: "val \<Rightarrow> val \<Rightarrow> failure + val" where
  "cmp_neq a b =
     (case mask_of (vtype a) of
        None \<Rightarrow> Inl (Elsewhere ''cmp_neq'')
      | Some M \<Rightarrow>
          if vtype b = vtype a
          then Inr \<lparr>vtype = M,
                    bytes = concat (map2 (\<lambda>x y. mask_lane (elem_bytes M) (lane_neq (vtype a) x y))
                                      (lanes_of a) (lanes_of b))\<rparr>
          else Inl (Elsewhere ''cmp_neq''))"

text \<open>
  An object of declared type \<open>X\<close> initialised from, or a function of return type \<open>X\<close>
  returning, an expression: a copy when the expression has type \<open>X\<close>; otherwise a
  conversion of the library would be needed.
\<close>

definition init_as :: "simd_type \<Rightarrow> val \<Rightarrow> failure + val" where
  "init_as X e = (if vtype e = X then Inr e else Inl (Elsewhere ''conversion''))"

text \<open>\<open>detail::is_same<A, B>::value\<close>.\<close>

definition is_same :: "simd_type \<Rightarrow> simd_type \<Rightarrow> bool" where
  "is_same A B = (A = B)"

section \<open>base_mask_vector_type\<close>

text \<open>
  \<open>typename base_mask_vector_type<T>::type\<close>. The lookup of a member type fails to
  compile when the selected template has no such member, so the result is a sum. A
  partial specialization is preferred to the primary template: the six come first and
  the primary template, \<open>typedef T type\<close>, is the last equation.
\<close>

fun base_mask_vector_type :: "simd_type \<Rightarrow> failure + simd_type" where
  "base_mask_vector_type (mask_int8 N) = Inr (uint8 N)"
| "base_mask_vector_type (mask_int16 N) = Inr (uint16 N)"
| "base_mask_vector_type (mask_int32 N) = Inr (uint32 N)"
| "base_mask_vector_type (mask_int64 N) = Inr (uint64 N)"
| "base_mask_vector_type (mask_float32 N) = Inr (float32 N)"
| "base_mask_vector_type (mask_float64 N) = Inr (float64 N)"
| "base_mask_vector_type T = Inr T"

section \<open>cast_memcpy, cast_memcpy_unmask, cast_memcpy_remask\<close>

text \<open>
  \<open>R r; ::memcpy(&r, &t, sizeof(R)); return r;\<close> after the assertion on the sizes.
  \<open>T\<close> is the static type of the argument. The value returned is an \<open>R\<close> whose
  storage is the first \<open>sizeof(R)\<close> bytes of the storage of \<open>t\<close>.
\<close>

definition cast_memcpy :: "simd_type \<Rightarrow> val \<Rightarrow> failure + val" where
  "cast_memcpy R t =
     SIMDPP_STATIC_ASSERT (sizeof R = sizeof (vtype t)) ''Size mismatch''
       (Inr \<lparr>vtype = R, bytes = take (sizeof R) (bytes t)\<rparr>)"

definition cast_memcpy_unmask :: "simd_type \<Rightarrow> val \<Rightarrow> failure + val" where
  "cast_memcpy_unmask R t =
     (case base_mask_vector_type (vtype t) of Inl e \<Rightarrow> Inl e | Inr TT \<Rightarrow>
       (case unmask t of Inl e \<Rightarrow> Inl e | Inr u \<Rightarrow>
         (case init_as TT u of Inl e \<Rightarrow> Inl e | Inr tt \<Rightarrow>
            cast_memcpy R tt)))"

definition cast_memcpy_remask :: "simd_type \<Rightarrow> val \<Rightarrow> failure + val" where
  "cast_memcpy_remask R t =
     (case base_mask_vector_type R of Inl e \<Rightarrow> Inl e | Inr RR \<Rightarrow>
       (case unmask t of Inl e \<Rightarrow> Inl e | Inr u \<Rightarrow>
         (case cast_memcpy RR u of Inl e \<Rightarrow> Inl e | Inr rr \<Rightarrow>
           (case cmp_neq rr (make_zero RR) of Inl e \<Rightarrow> Inl e | Inr m \<Rightarrow>
              init_as R m))))"

section \<open>cast_wrapper\<close>

text \<open>The six specializations of \<open>cast_wrapper\<close> that cast.inl defines, in its order.\<close>

datatype specialization =
    true_true_MEMCPY | true_true_UNMASK | true_true_REMASK
  | true_false | false_true | false_false

definition specializations :: "specialization list" where
  "specializations =
     [true_true_MEMCPY, true_true_UNMASK, true_true_REMASK, true_false, false_true, false_false]"

text \<open>
  The template arguments a specialization stands for: the first three fix all of
  them, the last three leave \<open>MaskCastOverride\<close> free.
\<close>

fun matches :: "specialization \<Rightarrow> bool \<Rightarrow> bool \<Rightarrow> nat \<Rightarrow> bool" where
  "matches true_true_MEMCPY IsRMask IsLMask ov = (IsRMask \<and> IsLMask \<and> ov = CAST_MASK_MEMCPY)"
| "matches true_true_UNMASK IsRMask IsLMask ov = (IsRMask \<and> IsLMask \<and> ov = CAST_MASK_UNMASK)"
| "matches true_true_REMASK IsRMask IsLMask ov = (IsRMask \<and> IsLMask \<and> ov = CAST_MASK_REMASK)"
| "matches true_false IsRMask IsLMask ov = (IsRMask \<and> \<not> IsLMask)"
| "matches false_true IsRMask IsLMask ov = (\<not> IsRMask \<and> IsLMask)"
| "matches false_false IsRMask IsLMask ov = (\<not> IsRMask \<and> \<not> IsLMask)"

text \<open>
  \<open>cast_wrapper<IsRMask, IsLMask, MaskCastOverride>\<close>: the specialization that matches
  the arguments. With none the primary template is used, which cast.h declares.
\<close>

datatype selection = Primary | Selected specialization | Ambiguous

definition cast_wrapper :: "bool \<Rightarrow> bool \<Rightarrow> nat \<Rightarrow> selection" where
  "cast_wrapper IsRMask IsLMask ov =
     (case filter (\<lambda>w. matches w IsRMask IsLMask ov) specializations of
        [] \<Rightarrow> Primary
      | [w] \<Rightarrow> Selected w
      | _ \<Rightarrow> Ambiguous)"

definition same_size_tag :: "simd_type \<Rightarrow> simd_type \<Rightarrow> failure + bool" where
  "same_size_tag R T =
     (case size_tag R of Inl e \<Rightarrow> Inl e | Inr a \<Rightarrow>
       (case size_tag T of Inl e \<Rightarrow> Inl e | Inr b \<Rightarrow> Inr (a = b)))"

definition mask_size_message :: string where
  "mask_size_message = ''Conversions between masks with different element size is not allowed''"

definition non_mask_message :: string where
  "non_mask_message = ''Conversion from non-mask type to a mask type is not allowed''"

text \<open>The member \<open>run<R, T>\<close> of each specialization.\<close>

fun run :: "specialization \<Rightarrow> simd_type \<Rightarrow> val \<Rightarrow> failure + val" where
  "run true_true_MEMCPY R t =
     (case same_size_tag R (vtype t) of Inl e \<Rightarrow> Inl e | Inr c \<Rightarrow>
        SIMDPP_STATIC_ASSERT c mask_size_message (cast_memcpy R t))"
| "run true_true_UNMASK R t =
     (case same_size_tag R (vtype t) of Inl e \<Rightarrow> Inl e | Inr c \<Rightarrow>
        SIMDPP_STATIC_ASSERT c mask_size_message (cast_memcpy_unmask R t))"
| "run true_true_REMASK R t =
     (case same_size_tag R (vtype t) of Inl e \<Rightarrow> Inl e | Inr c \<Rightarrow>
        SIMDPP_STATIC_ASSERT c mask_size_message (cast_memcpy_remask R t))"
| "run true_false R t =
     SIMDPP_STATIC_ASSERT (\<not> is_same (vtype t) (vtype t)) non_mask_message (Inl MissingReturn)"
| "run false_true R t = cast_memcpy_unmask R t"
| "run false_false R t = cast_memcpy R t"

text \<open>\<open>cast_wrapper<IsRMask, IsLMask, MaskCastOverride>::run<R>(t)\<close>.\<close>

definition cast_wrapper_run ::
  "bool \<Rightarrow> bool \<Rightarrow> nat \<Rightarrow> simd_type \<Rightarrow> val \<Rightarrow> failure + val" where
  "cast_wrapper_run IsRMask IsLMask ov R t =
     (case cast_wrapper IsRMask IsLMask ov of
        Selected w \<Rightarrow> run w R t
      | Primary \<Rightarrow> Inl (Elsewhere ''cast_wrapper'')
      | Ambiguous \<Rightarrow> Inl AmbiguousSpecialization)"

section \<open>cast_memcpy with the memory it touches\<close>

text \<open>
  The body of \<open>cast_memcpy\<close> once more, with the memory explicit: \<open>t_addr\<close> is \<open>&t\<close>,
  \<open>r_addr\<close> is \<open>&r\<close>, the address of the local \<open>r\<close>, whose storage holds whatever the
  memory holds there. \<open>memcpy\<close> writes \<open>n\<close> bytes at \<open>dst\<close>. The function returns the
  object it reads back from \<open>r\<close>, and the memory it leaves.
\<close>

type_synonym memory = "nat \<Rightarrow> byte"

definition memcpy :: "memory \<Rightarrow> nat \<Rightarrow> nat \<Rightarrow> nat \<Rightarrow> memory" where
  "memcpy mem dst src n =
     (\<lambda>a. if dst \<le> a \<and> a < dst + n then mem (src + (a - dst)) else mem a)"

definition object_at :: "memory \<Rightarrow> nat \<Rightarrow> nat \<Rightarrow> byte list" where
  "object_at mem p n = map mem [p..<p + n]"

definition cast_memcpy_in ::
  "memory \<Rightarrow> nat \<Rightarrow> simd_type \<Rightarrow> simd_type \<Rightarrow> nat \<Rightarrow> failure + val \<times> memory" where
  "cast_memcpy_in mem r_addr R T t_addr =
     SIMDPP_STATIC_ASSERT (sizeof R = sizeof T) ''Size mismatch''
       (let mem' = memcpy mem r_addr t_addr (sizeof R)
        in Inr (\<lparr>vtype = R, bytes = object_at mem' r_addr (sizeof R)\<rparr>, mem'))"

section \<open>Reading objects\<close>

text \<open>An object is well formed when its storage has the size of its type.\<close>

definition well_formed :: "val \<Rightarrow> bool" where
  "well_formed v = (length (bytes v) = sizeof (vtype v))"

text \<open>
  The value of a lane of a vector of type \<open>V\<close> is not zero: some bit is set, the sign
  bit apart in a floating-point lane, whose two zeros differ in it.
\<close>

fun lane_nonzero :: "simd_type \<Rightarrow> byte list \<Rightarrow> bool" where
  "lane_nonzero (float32 N) x = (lane_int x mod 2 ^ 31 \<noteq> 0)"
| "lane_nonzero (float64 N) x = (lane_int x mod 2 ^ 63 \<noteq> 0)"
| "lane_nonzero T x = (lane_int x \<noteq> 0)"

text \<open>
  Modelled from the spec: the storage of a mask of simdpp/types.h, which is not among
  the sources: "all bits set for true, all bits clear for false". \<open>mask_lanes\<close> is the
  true/false pattern of a mask, lane by lane; \<open>valid_mask\<close> holds of the masks whose
  lanes are each all ones or all zeros.
\<close>

definition mask_lanes :: "val \<Rightarrow> bool list" where
  "mask_lanes m = map (\<lambda>l. l = mask_lane (elem_bytes (vtype m)) True) (lanes_of m)"

definition valid_mask :: "val \<Rightarrow> bool" where
  "valid_mask m =
     (is_mask (vtype m) \<and> well_formed m \<and>
      list_all (\<lambda>l. l = mask_lane (elem_bytes (vtype m)) True \<or>
                    l = mask_lane (elem_bytes (vtype m)) False) (lanes_of m))"

section \<open>Properties of the lookup\<close>

lemma base_mask_vector_type_total: "\<exists>B. base_mask_vector_type T = Inr B"
  by (cases T) simp_all

lemma base_mask_vector_type_mask:
  "is_mask T \<Longrightarrow> \<exists>B. base_mask_vector_type T = Inr B \<and> unmask_type T = Some B"
  by (cases T) simp_all

lemma unmask_type_shape:
  "unmask_type T = Some B \<Longrightarrow>
     is_mask T \<and> \<not> is_mask B \<and> mask_of B = Some T \<and>
     num_lanes B = num_lanes T \<and> elem_bytes B = elem_bytes T"
  by (cases T) auto

lemma unmask_type_sizeof: "unmask_type T = Some B \<Longrightarrow> sizeof B = sizeof T"
  by (simp add: sizeof_def unmask_type_shape)

text \<open>
  C10. For every type \<open>T\<close> that is not one of the six mask types,
  \<open>base_mask_vector_type<T>::type\<close> is \<open>T\<close> itself: the primary template is the
  identity, so the lookup on a type that has no entry compiles and yields that type.
\<close>

theorem base_mask_vector_type_primary:
  "\<not> is_mask T \<Longrightarrow> base_mask_vector_type T = Inr T"
  by (cases T) simp_all

theorem base_mask_vector_type_primary_witness:
  "\<not> is_mask (other_type 16) \<and> base_mask_vector_type (other_type 16) = Inr (other_type 16) \<and>
   \<not> is_mask (float32 4) \<and> base_mask_vector_type (float32 4) = Inr (float32 4)"
  using base_mask_vector_type_primary [of "other_type 16"]
    base_mask_vector_type_primary [of "float32 4"]
  by simp

text \<open>
  C9, as the spec states it: the lookup on a type outside the six mask kinds is a
  compile error, not a fallback. It fails on \<open>uint8<16>\<close>, which is no mask and has
  no entry: the lookup compiles and yields \<open>uint8<16>\<close>.
\<close>

theorem base_mask_vector_type_no_error_counterexample:
  "\<not> is_mask (uint8 16) \<and> base_mask_vector_type (uint8 16) = Inr (uint8 16)"
  by simp

text \<open>
  C9, amended: the lookup maps each of the six mask kinds, for every lane count, to its
  base vector type (the unsigned integer or floating-point vector of the same lane
  count and lane width, which is the type \<open>unmask\<close> yields); every mask kind has an
  entry; and on any other type the lookup compiles and yields that type itself.
\<close>

theorem base_mask_vector_type_table:
  "base_mask_vector_type (mask_int8 N) = Inr (uint8 N) \<and>
   base_mask_vector_type (mask_int16 N) = Inr (uint16 N) \<and>
   base_mask_vector_type (mask_int32 N) = Inr (uint32 N) \<and>
   base_mask_vector_type (mask_int64 N) = Inr (uint64 N) \<and>
   base_mask_vector_type (mask_float32 N) = Inr (float32 N) \<and>
   base_mask_vector_type (mask_float64 N) = Inr (float64 N) \<and>
   (is_mask T \<longrightarrow>
      (\<exists>B. base_mask_vector_type T = Inr B \<and> B \<noteq> T \<and> \<not> is_mask B \<and>
           unmask_type T = Some B \<and>
           num_lanes B = num_lanes T \<and> elem_bytes B = elem_bytes T)) \<and>
   (\<not> is_mask T \<longrightarrow> base_mask_vector_type T = Inr T)"
  by (cases T) simp_all

theorem base_mask_vector_type_table_witness:
  "is_mask (mask_float64 2) \<and> base_mask_vector_type (mask_float64 2) = Inr (float64 2) \<and>
   \<not> is_mask (uint8 16) \<and> base_mask_vector_type (uint8 16) = Inr (uint8 16)"
  using base_mask_vector_type_table [of 2 "mask_float64 2"]
    base_mask_vector_type_table [of 16 "uint8 16"]
  by simp

section \<open>Properties of the dispatch\<close>

lemmas enumerators = CAST_MASK_MEMCPY_def CAST_MASK_UNMASK_def CAST_MASK_REMASK_def

lemma cast_wrapper_true_false [simp]: "cast_wrapper True False ov = Selected true_false"
  by (simp add: cast_wrapper_def specializations_def)

lemma cast_wrapper_false_true [simp]: "cast_wrapper False True ov = Selected false_true"
  by (simp add: cast_wrapper_def specializations_def)

lemma cast_wrapper_false_false [simp]: "cast_wrapper False False ov = Selected false_false"
  by (simp add: cast_wrapper_def specializations_def)

lemma cast_wrapper_true_true:
  "cast_wrapper True True ov =
     (if ov = CAST_MASK_MEMCPY then Selected true_true_MEMCPY
      else if ov = CAST_MASK_UNMASK then Selected true_true_UNMASK
      else if ov = CAST_MASK_REMASK then Selected true_true_REMASK
      else Primary)"
  by (simp add: cast_wrapper_def specializations_def enumerators)

lemma cast_memcpy_failure:
  "cast_memcpy R t = Inl e \<Longrightarrow> e = StaticAssert ''Size mismatch''"
  by (simp add: cast_memcpy_def SIMDPP_STATIC_ASSERT_def split: if_splits)

lemma unmask_failure: "unmask t = Inl e \<Longrightarrow> e = Elsewhere ''unmask''"
  by (simp add: unmask_def split: option.splits)

lemma init_as_failure: "init_as X v = Inl e \<Longrightarrow> e = Elsewhere ''conversion''"
  by (simp add: init_as_def split: if_splits)

lemma cmp_neq_failure: "cmp_neq a b = Inl e \<Longrightarrow> e = Elsewhere ''cmp_neq''"
  by (simp add: cmp_neq_def split: option.splits if_splits)

lemma same_size_tag_failure: "same_size_tag R T = Inl e \<Longrightarrow> e = Elsewhere ''size_tag''"
  by (cases R; cases T) (simp_all add: same_size_tag_def)

lemma cast_memcpy_unmask_failure:
  "cast_memcpy_unmask R t = Inl e \<Longrightarrow>
     e = StaticAssert ''Size mismatch'' \<or> e = Elsewhere ''unmask'' \<or> e = Elsewhere ''conversion''"
  using base_mask_vector_type_total [of "vtype t"]
  by (auto simp: cast_memcpy_unmask_def split: sum.splits
       dest: cast_memcpy_failure unmask_failure init_as_failure)

lemma cast_memcpy_remask_failure:
  "cast_memcpy_remask R t = Inl e \<Longrightarrow>
     e = StaticAssert ''Size mismatch'' \<or> e = Elsewhere ''unmask'' \<or>
     e = Elsewhere ''conversion'' \<or> e = Elsewhere ''cmp_neq''"
  using base_mask_vector_type_total [of R]
  by (auto simp: cast_memcpy_remask_def split: sum.splits
       dest: cast_memcpy_failure unmask_failure init_as_failure cmp_neq_failure)

lemma run_failure:
  "run w R t = Inl (StaticAssert non_mask_message) \<Longrightarrow> w = true_false"
  by (cases w)
     (auto simp: SIMDPP_STATIC_ASSERT_def non_mask_message_def mask_size_message_def
        split: sum.splits if_splits
        dest: cast_memcpy_failure cast_memcpy_unmask_failure cast_memcpy_remask_failure
          same_size_tag_failure)

text \<open>
  C1. \<open>cast_wrapper<true, false, MaskCastOverride>::run\<close>, the cast of a source that is
  no mask to a destination that is a mask, fails to compile with the message
  "Conversion from non-mask type to a mask type is not allowed", for every value of
  \<open>MaskCastOverride\<close>, every \<open>R\<close> and every \<open>t\<close>: it never returns a value. The assertion
  belongs to that instantiation alone: with any other template arguments the cast does
  not fail with this message.
\<close>

theorem cast_wrapper_run_non_mask_to_mask:
  "(cast_wrapper_run IsRMask IsLMask ov R t =
      Inl (StaticAssert ''Conversion from non-mask type to a mask type is not allowed''))
   = (IsRMask \<and> \<not> IsLMask)"
proof (cases "IsRMask \<and> \<not> IsLMask")
  case True
  then show ?thesis
    by (simp add: cast_wrapper_run_def SIMDPP_STATIC_ASSERT_def is_same_def non_mask_message_def)
next
  case False
  have "cast_wrapper_run IsRMask IsLMask ov R t \<noteq> Inl (StaticAssert non_mask_message)"
  proof
    assume a: "cast_wrapper_run IsRMask IsLMask ov R t = Inl (StaticAssert non_mask_message)"
    then obtain w where w: "cast_wrapper IsRMask IsLMask ov = Selected w"
      and r: "run w R t = Inl (StaticAssert non_mask_message)"
      by (auto simp: cast_wrapper_run_def non_mask_message_def split: selection.splits)
    from r have "w = true_false" by (rule run_failure)
    with w False show False
      by (cases IsRMask; cases IsLMask) (auto simp: cast_wrapper_true_true split: if_splits)
  qed
  with False show ?thesis by (simp add: non_mask_message_def)
qed

text \<open>
  C2. For every combination of \<open>IsRMask\<close>, \<open>IsLMask\<close> and \<open>MaskCastOverride\<close>, the last
  being one of the three strategies when both flags are set, exactly one specialization
  of \<open>cast_wrapper\<close> matches, and the cast behaves in exactly one of four ways: it is
  rejected (destination a mask, source not), it is \<open>cast_memcpy\<close> (neither a mask), it
  is \<open>cast_memcpy_unmask\<close> (source a mask, destination not), or, after the comparison
  of the size tags, it is the one of \<open>cast_memcpy\<close>, \<open>cast_memcpy_unmask\<close> and
  \<open>cast_memcpy_remask\<close> that the strategy names (both masks).
\<close>

theorem cast_wrapper_exactly_one:
  assumes "IsRMask \<and> IsLMask \<longrightarrow>
             ov \<in> {CAST_MASK_MEMCPY, CAST_MASK_UNMASK, CAST_MASK_REMASK}"
  shows "(\<exists>!w. matches w IsRMask IsLMask ov) \<and>
         cast_wrapper IsRMask IsLMask ov =
           Selected (if IsRMask
                     then if IsLMask
                          then if ov = CAST_MASK_MEMCPY then true_true_MEMCPY
                               else if ov = CAST_MASK_UNMASK then true_true_UNMASK
                               else true_true_REMASK
                          else true_false
                     else if IsLMask then false_true else false_false) \<and>
         cast_wrapper_run IsRMask IsLMask ov R t =
           (if IsRMask
            then if IsLMask
                 then case same_size_tag R (vtype t) of
                        Inl e \<Rightarrow> Inl e
                      | Inr c \<Rightarrow>
                          SIMDPP_STATIC_ASSERT c mask_size_message
                            (if ov = CAST_MASK_MEMCPY then cast_memcpy R t
                             else if ov = CAST_MASK_UNMASK then cast_memcpy_unmask R t
                             else cast_memcpy_remask R t)
                 else Inl (StaticAssert non_mask_message)
            else if IsLMask then cast_memcpy_unmask R t else cast_memcpy R t)"
proof -
  have one: "\<exists>!w. matches w IsRMask IsLMask ov"
  proof (cases IsRMask; cases IsLMask)
    assume "IsRMask" "IsLMask"
    with assms consider "ov = CAST_MASK_MEMCPY" | "ov = CAST_MASK_UNMASK" | "ov = CAST_MASK_REMASK"
      by auto
    then show ?thesis
    proof cases
      case 1
      have "matches true_true_MEMCPY IsRMask IsLMask ov"
        using 1 \<open>IsRMask\<close> \<open>IsLMask\<close> by simp
      moreover have "w = true_true_MEMCPY" if "matches w IsRMask IsLMask ov" for w
        using that 1 \<open>IsRMask\<close> \<open>IsLMask\<close> by (cases w) (simp_all add: enumerators)
      ultimately show ?thesis by blast
    next
      case 2
      have "matches true_true_UNMASK IsRMask IsLMask ov"
        using 2 \<open>IsRMask\<close> \<open>IsLMask\<close> by simp
      moreover have "w = true_true_UNMASK" if "matches w IsRMask IsLMask ov" for w
        using that 2 \<open>IsRMask\<close> \<open>IsLMask\<close> by (cases w) (simp_all add: enumerators)
      ultimately show ?thesis by blast
    next
      case 3
      have "matches true_true_REMASK IsRMask IsLMask ov"
        using 3 \<open>IsRMask\<close> \<open>IsLMask\<close> by simp
      moreover have "w = true_true_REMASK" if "matches w IsRMask IsLMask ov" for w
        using that 3 \<open>IsRMask\<close> \<open>IsLMask\<close> by (cases w) (simp_all add: enumerators)
      ultimately show ?thesis by blast
    qed
  next
    assume f: "IsRMask" "\<not> IsLMask"
    have "matches true_false IsRMask IsLMask ov" using f by simp
    moreover have "w = true_false" if "matches w IsRMask IsLMask ov" for w
      using that f by (cases w) simp_all
    ultimately show ?thesis by blast
  next
    assume f: "\<not> IsRMask" "IsLMask"
    have "matches false_true IsRMask IsLMask ov" using f by simp
    moreover have "w = false_true" if "matches w IsRMask IsLMask ov" for w
      using that f by (cases w) simp_all
    ultimately show ?thesis by blast
  next
    assume f: "\<not> IsRMask" "\<not> IsLMask"
    have "matches false_false IsRMask IsLMask ov" using f by simp
    moreover have "w = false_false" if "matches w IsRMask IsLMask ov" for w
      using that f by (cases w) simp_all
    ultimately show ?thesis by blast
  qed
  have sel: "cast_wrapper IsRMask IsLMask ov =
           Selected (if IsRMask
                     then if IsLMask
                          then if ov = CAST_MASK_MEMCPY then true_true_MEMCPY
                               else if ov = CAST_MASK_UNMASK then true_true_UNMASK
                               else true_true_REMASK
                          else true_false
                     else if IsLMask then false_true else false_false)"
    using assms by (cases IsRMask; cases IsLMask) (auto simp: cast_wrapper_true_true)
  have "cast_wrapper_run IsRMask IsLMask ov R t =
           (if IsRMask
            then if IsLMask
                 then case same_size_tag R (vtype t) of
                        Inl e \<Rightarrow> Inl e
                      | Inr c \<Rightarrow>
                          SIMDPP_STATIC_ASSERT c mask_size_message
                            (if ov = CAST_MASK_MEMCPY then cast_memcpy R t
                             else if ov = CAST_MASK_UNMASK then cast_memcpy_unmask R t
                             else cast_memcpy_remask R t)
                 else Inl (StaticAssert non_mask_message)
            else if IsLMask then cast_memcpy_unmask R t else cast_memcpy R t)"
    unfolding cast_wrapper_run_def sel
    by (simp add: SIMDPP_STATIC_ASSERT_def is_same_def split: sum.splits)
  with one sel show ?thesis by blast
qed

theorem cast_wrapper_exactly_one_witness:
  "CAST_MASK_REMASK \<in> {CAST_MASK_MEMCPY, CAST_MASK_UNMASK, CAST_MASK_REMASK} \<and>
   (\<exists>!w. matches w True True CAST_MASK_REMASK) \<and>
   cast_wrapper True True CAST_MASK_REMASK = Selected true_true_REMASK \<and>
   (\<exists>!w. matches w True False 7) \<and> cast_wrapper True False 7 = Selected true_false \<and>
   cast_wrapper_run False False 7 (uint8 4) \<lparr>vtype = uint32 1, bytes = [1, 2, 3, 4]\<rparr> =
     Inr \<lparr>vtype = uint8 4, bytes = [1, 2, 3, 4]\<rparr>"
  using cast_wrapper_exactly_one [of True True CAST_MASK_REMASK]
    cast_wrapper_exactly_one [of True False 7]
    cast_wrapper_exactly_one [of False False 7 "uint8 4" "\<lparr>vtype = uint32 1, bytes = [1, 2, 3, 4]\<rparr>"]
  by (simp add: enumerators cast_memcpy_def SIMDPP_STATIC_ASSERT_def sizeof_def)

section \<open>Properties of the bit copy\<close>

lemma object_at_memcpy: "object_at (memcpy mem dst src n) dst n = object_at mem src n"
  by (rule nth_equalityI) (simp_all add: object_at_def memcpy_def)

lemma object_at_memcpy_other:
  "dst + n \<le> p \<or> p + k \<le> dst \<Longrightarrow> object_at (memcpy mem dst src n) p k = object_at mem p k"
  by (rule nth_equalityI) (auto simp: object_at_def memcpy_def)

lemma length_object_at [simp]: "length (object_at mem p n) = n"
  by (simp add: object_at_def)

lemma cast_memcpy_well_formed:
  "sizeof R = sizeof (vtype t) \<Longrightarrow> well_formed t \<Longrightarrow>
     cast_memcpy R t = Inr \<lparr>vtype = R, bytes = bytes t\<rparr>"
  by (simp add: cast_memcpy_def SIMDPP_STATIC_ASSERT_def well_formed_def)

lemma cast_memcpy_mismatch:
  "sizeof R \<noteq> sizeof (vtype t) \<Longrightarrow> cast_memcpy R t = Inl (StaticAssert ''Size mismatch'')"
  by (simp add: cast_memcpy_def SIMDPP_STATIC_ASSERT_def)

text \<open>
  C3. When \<open>sizeof(R) == sizeof(T)\<close>, \<open>cast_memcpy<R>\<close> of an object of type \<open>T\<close> returns an
  object of type \<open>R\<close> whose storage is, byte for byte, the storage of the source. It has
  no side effect: the only memory it writes is the storage of its local \<open>r\<close>, the source
  is left as it was, and the value returned is the one the pure function \<open>cast_memcpy\<close>
  gives for the source's bytes. When the sizes differ, the compilation fails with
  "Size mismatch" and there is no value.
\<close>

theorem cast_memcpy_bit_identical:
  "(sizeof R = sizeof T \<and> (r_addr + sizeof R \<le> t_addr \<or> t_addr + sizeof T \<le> r_addr) \<longrightarrow>
      (\<exists>v mem'. cast_memcpy_in mem r_addr R T t_addr = Inr (v, mem') \<and>
         vtype v = R \<and> bytes v = object_at mem t_addr (sizeof T) \<and>
         (\<forall>a. a < r_addr \<or> r_addr + sizeof R \<le> a \<longrightarrow> mem' a = mem a) \<and>
         object_at mem' t_addr (sizeof T) = object_at mem t_addr (sizeof T) \<and>
         cast_memcpy R \<lparr>vtype = T, bytes = object_at mem t_addr (sizeof T)\<rparr> = Inr v)) \<and>
   (sizeof R = sizeof (vtype t) \<and> well_formed t \<longrightarrow>
      cast_memcpy R t = Inr \<lparr>vtype = R, bytes = bytes t\<rparr>) \<and>
   (sizeof R \<noteq> sizeof T \<longrightarrow>
      cast_memcpy_in mem r_addr R T t_addr = Inl (StaticAssert ''Size mismatch'') \<and>
      cast_memcpy R \<lparr>vtype = T, bytes = bs\<rparr> = Inl (StaticAssert ''Size mismatch''))"
proof (intro conjI impI)
  assume a: "sizeof R = sizeof T \<and> (r_addr + sizeof R \<le> t_addr \<or> t_addr + sizeof T \<le> r_addr)"
  let ?mem' = "memcpy mem r_addr t_addr (sizeof R)"
  let ?v = "\<lparr>vtype = R, bytes = object_at ?mem' r_addr (sizeof R)\<rparr>"
  have run: "cast_memcpy_in mem r_addr R T t_addr = Inr (?v, ?mem')"
    using a by (simp add: cast_memcpy_in_def SIMDPP_STATIC_ASSERT_def Let_def)
  have copied: "bytes ?v = object_at mem t_addr (sizeof T)"
    using a by (simp add: object_at_memcpy)
  have frame: "\<forall>a. a < r_addr \<or> r_addr + sizeof R \<le> a \<longrightarrow> ?mem' a = mem a"
    by (auto simp: memcpy_def)
  have source: "object_at ?mem' t_addr (sizeof T) = object_at mem t_addr (sizeof T)"
    using a by (intro object_at_memcpy_other) auto
  have pure: "cast_memcpy R \<lparr>vtype = T, bytes = object_at mem t_addr (sizeof T)\<rparr> = Inr ?v"
    using a by (simp add: cast_memcpy_well_formed well_formed_def object_at_memcpy)
  from run copied frame source pure
  show "\<exists>v mem'. cast_memcpy_in mem r_addr R T t_addr = Inr (v, mem') \<and>
         vtype v = R \<and> bytes v = object_at mem t_addr (sizeof T) \<and>
         (\<forall>a. a < r_addr \<or> r_addr + sizeof R \<le> a \<longrightarrow> mem' a = mem a) \<and>
         object_at mem' t_addr (sizeof T) = object_at mem t_addr (sizeof T) \<and>
         cast_memcpy R \<lparr>vtype = T, bytes = object_at mem t_addr (sizeof T)\<rparr> = Inr v"
    by (intro exI [of _ ?v] exI [of _ ?mem']) simp
next
  assume "sizeof R = sizeof (vtype t) \<and> well_formed t"
  then show "cast_memcpy R t = Inr \<lparr>vtype = R, bytes = bytes t\<rparr>"
    by (simp add: cast_memcpy_well_formed)
next
  assume "sizeof R \<noteq> sizeof T"
  then show "cast_memcpy_in mem r_addr R T t_addr = Inl (StaticAssert ''Size mismatch'')"
    by (simp add: cast_memcpy_in_def SIMDPP_STATIC_ASSERT_def)
next
  assume "sizeof R \<noteq> sizeof T"
  then show "cast_memcpy R \<lparr>vtype = T, bytes = bs\<rparr> = Inl (StaticAssert ''Size mismatch'')"
    by (simp add: cast_memcpy_mismatch)
qed

theorem cast_memcpy_bit_identical_witness:
  "sizeof (float32 1) = sizeof (uint8 4) \<and> 1 + sizeof (uint8 4) \<le> 10 \<and>
   well_formed \<lparr>vtype = uint8 4, bytes = [1, 2, 3, 4]\<rparr> \<and>
   cast_memcpy (float32 1) \<lparr>vtype = uint8 4, bytes = [1, 2, 3, 4]\<rparr> =
     Inr \<lparr>vtype = float32 1, bytes = [1, 2, 3, 4]\<rparr> \<and>
   sizeof (uint16 1) \<noteq> sizeof (uint8 4) \<and>
   cast_memcpy (uint16 1) \<lparr>vtype = uint8 4, bytes = [1, 2, 3, 4]\<rparr> =
     Inl (StaticAssert ''Size mismatch'') \<and>
   (\<exists>mem'. cast_memcpy_in (\<lambda>a. of_nat a) 10 (float32 1) (uint8 4) 1 =
             Inr (\<lparr>vtype = float32 1, bytes = [1, 2, 3, 4]\<rparr>, mem') \<and>
           mem' 0 = 0 \<and> mem' 1 = 1 \<and> mem' 14 = 14)"
proof -
  let ?t = "\<lparr>vtype = uint8 4, bytes = [1, 2, 3, 4 :: byte]\<rparr>"
  have s: "sizeof (float32 1) = 4" "sizeof (uint8 4) = 4" "sizeof (uint16 1) = 2"
    by (simp_all add: sizeof_def)
  have o: "object_at (\<lambda>a. of_nat a) 1 4 = [1, 2, 3, 4 :: byte]"
    by (simp add: object_at_def upt_rec)
  have w: "well_formed ?t"
    by (simp add: well_formed_def sizeof_def)
  note ok = cast_memcpy_bit_identical
    [where R = "float32 1" and T = "uint8 4" and r_addr = 10 and t_addr = 1
       and mem = "\<lambda>a. of_nat a" and t = ?t]
  note bad = cast_memcpy_bit_identical
    [where R = "uint16 1" and T = "uint8 4" and r_addr = 10 and t_addr = 1
       and mem = "\<lambda>a. of_nat a" and bs = "[1, 2, 3, 4]"]
  from ok s o obtain v mem' where
    run: "cast_memcpy_in (\<lambda>a. of_nat a) 10 (float32 1) (uint8 4) 1 = Inr (v, mem')"
    and v: "vtype v = float32 1" "bytes v = [1, 2, 3, 4]"
    and frame: "\<forall>a. a < 10 \<or> 14 \<le> a \<longrightarrow> mem' a = of_nat a"
    by auto
  from v have "v = \<lparr>vtype = float32 1, bytes = [1, 2, 3, 4]\<rparr>"
    by (cases v) simp
  with run frame have mem:
    "\<exists>mem'. cast_memcpy_in (\<lambda>a. of_nat a) 10 (float32 1) (uint8 4) 1 =
             Inr (\<lparr>vtype = float32 1, bytes = [1, 2, 3, 4]\<rparr>, mem') \<and>
           mem' 0 = 0 \<and> mem' 1 = 1 \<and> mem' 14 = 14"
    by (intro exI [of _ mem']) simp
  from ok s w have pure:
    "cast_memcpy (float32 1) ?t = Inr \<lparr>vtype = float32 1, bytes = [1, 2, 3, 4]\<rparr>"
    by simp
  from bad s have mismatch:
    "cast_memcpy (uint16 1) ?t = Inl (StaticAssert ''Size mismatch'')"
    by simp
  from s w pure mismatch mem show ?thesis
    by simp
qed

section \<open>Properties of the casts\<close>

lemma cast_wrapper_run_false_false [simp]:
  "cast_wrapper_run False False ov R t = cast_memcpy R t"
  by (simp add: cast_wrapper_run_def)

lemma cast_wrapper_run_false_true [simp]:
  "cast_wrapper_run False True ov R t = cast_memcpy_unmask R t"
  by (simp add: cast_wrapper_run_def)

lemma cast_wrapper_run_true_false [simp]:
  "cast_wrapper_run True False ov R t = Inl (StaticAssert non_mask_message)"
  by (simp add: cast_wrapper_run_def SIMDPP_STATIC_ASSERT_def is_same_def)

lemma cast_wrapper_run_true_true:
  "cast_wrapper_run True True CAST_MASK_MEMCPY R t = run true_true_MEMCPY R t"
  "cast_wrapper_run True True CAST_MASK_UNMASK R t = run true_true_UNMASK R t"
  "cast_wrapper_run True True CAST_MASK_REMASK R t = run true_true_REMASK R t"
  by (simp_all add: cast_wrapper_run_def cast_wrapper_true_true enumerators)

lemma size_tag_mask: "is_mask T \<Longrightarrow> size_tag T = Inr (8 * sizeof T)"
  by (cases T) simp_all

lemma size_tag_eq_mask:
  "is_mask R \<Longrightarrow> is_mask T \<Longrightarrow> size_tag R = size_tag T \<longleftrightarrow> sizeof R = sizeof T"
  by (simp add: size_tag_mask)

lemma same_size_tag_mask:
  "is_mask R \<Longrightarrow> is_mask T \<Longrightarrow> same_size_tag R T = Inr (size_tag R = size_tag T)"
  by (simp add: same_size_tag_def size_tag_mask)

lemma unmask_mask:
  "unmask_type (vtype t) = Some B \<Longrightarrow> unmask t = Inr \<lparr>vtype = B, bytes = bytes t\<rparr>"
  by (simp add: unmask_def)

lemma cast_memcpy_unmask_mask:
  assumes "unmask_type (vtype t) = Some B"
  shows "cast_memcpy_unmask R t = cast_memcpy R \<lparr>vtype = B, bytes = bytes t\<rparr>"
proof -
  from assms have "is_mask (vtype t)" by (simp add: unmask_type_shape)
  with assms have "base_mask_vector_type (vtype t) = Inr B"
    using base_mask_vector_type_mask [of "vtype t"] by auto
  with assms show ?thesis
    by (simp add: cast_memcpy_unmask_def unmask_mask init_as_def)
qed

lemma cmp_neq_vector:
  "mask_of (vtype a) = Some M \<Longrightarrow> vtype b = vtype a \<Longrightarrow>
     cmp_neq a b =
       Inr \<lparr>vtype = M,
             bytes = concat (map2 (\<lambda>x y. mask_lane (elem_bytes M) (lane_neq (vtype a) x y))
                               (lanes_of a) (lanes_of b))\<rparr>"
  by (simp add: cmp_neq_def)

lemma cast_memcpy_remask_mask:
  assumes R: "unmask_type R = Some RR" and T: "unmask_type (vtype t) = Some B"
  shows "cast_memcpy_remask R t =
           (if sizeof R = sizeof (vtype t)
            then cmp_neq \<lparr>vtype = RR, bytes = take (sizeof RR) (bytes t)\<rparr> (make_zero RR)
            else Inl (StaticAssert ''Size mismatch''))"
    and "sizeof R = sizeof (vtype t) \<Longrightarrow> \<exists>m. cast_memcpy_remask R t = Inr m \<and> vtype m = R"
proof -
  from R have "is_mask R" and m: "mask_of RR = Some R" and sR: "sizeof RR = sizeof R"
    by (simp_all add: unmask_type_shape unmask_type_sizeof)
  with R have base: "base_mask_vector_type R = Inr RR"
    using base_mask_vector_type_mask [of R] by auto
  from T have sT: "sizeof B = sizeof (vtype t)"
    by (simp add: unmask_type_sizeof)
  let ?rr = "\<lparr>vtype = RR, bytes = take (sizeof RR) (bytes t)\<rparr>"
  have c: "cmp_neq ?rr (make_zero RR) =
        Inr \<lparr>vtype = R,
              bytes = concat (map2 (\<lambda>x y. mask_lane (elem_bytes R) (lane_neq RR x y))
                                (lanes_of ?rr) (lanes_of (make_zero RR)))\<rparr>"
    using m by (simp add: cmp_neq_vector make_zero_def)
  have u: "unmask t = Inr \<lparr>vtype = B, bytes = bytes t\<rparr>"
    using T by (rule unmask_mask)
  show eq: "cast_memcpy_remask R t =
           (if sizeof R = sizeof (vtype t)
            then cmp_neq ?rr (make_zero RR)
            else Inl (StaticAssert ''Size mismatch''))"
  proof (cases "sizeof R = sizeof (vtype t)")
    case True
    then have "cast_memcpy RR \<lparr>vtype = B, bytes = bytes t\<rparr> = Inr ?rr"
      using sR sT by (simp add: cast_memcpy_def SIMDPP_STATIC_ASSERT_def)
    then show ?thesis
      using True base u c by (simp add: cast_memcpy_remask_def init_as_def)
  next
    case False
    then have "cast_memcpy RR \<lparr>vtype = B, bytes = bytes t\<rparr> = Inl (StaticAssert ''Size mismatch'')"
      using sR sT by (simp add: cast_memcpy_mismatch)
    then show ?thesis
      using False base u by (simp add: cast_memcpy_remask_def)
  qed
  show "\<exists>m. cast_memcpy_remask R t = Inr m \<and> vtype m = R" if "sizeof R = sizeof (vtype t)"
    using that eq c by simp
qed

text \<open>
  C7. For all types \<open>A\<close> and \<open>B\<close> that are no masks and have the same storage size, and
  every object of type \<open>A\<close>, the cast from \<open>A\<close> to \<open>B\<close> yields an object of type \<open>B\<close> with
  the same bytes, and the cast of that object back to \<open>A\<close> yields the original, whatever
  the strategy arguments.
\<close>

theorem cast_round_trip:
  assumes "\<not> is_mask A" "\<not> is_mask B" "sizeof A = sizeof B" "vtype a = A" "well_formed a"
  shows "\<exists>b. cast_wrapper_run (is_mask B) (is_mask A) ov B a = Inr b \<and>
             vtype b = B \<and> bytes b = bytes a \<and>
             cast_wrapper_run (is_mask A) (is_mask B) ov' A b = Inr a"
proof -
  let ?b = "\<lparr>vtype = B, bytes = bytes a\<rparr>"
  have there: "cast_wrapper_run (is_mask B) (is_mask A) ov B a = Inr ?b"
    using assms by (simp add: cast_memcpy_well_formed)
  have "well_formed ?b"
    using assms by (simp add: well_formed_def)
  then have "cast_wrapper_run (is_mask A) (is_mask B) ov' A ?b = Inr \<lparr>vtype = A, bytes = bytes a\<rparr>"
    using assms by (simp add: cast_memcpy_well_formed)
  also have "\<lparr>vtype = A, bytes = bytes a\<rparr> = a"
    using assms by simp
  finally show ?thesis
    using there by (intro exI [of _ ?b]) simp
qed

theorem cast_round_trip_witness:
  "\<not> is_mask (uint8 8) \<and> \<not> is_mask (float32 2) \<and> sizeof (uint8 8) = sizeof (float32 2) \<and>
   well_formed \<lparr>vtype = uint8 8, bytes = [1, 2, 3, 4, 5, 6, 7, 128]\<rparr> \<and>
   (\<exists>b. cast_wrapper_run False False 0 (float32 2)
           \<lparr>vtype = uint8 8, bytes = [1, 2, 3, 4, 5, 6, 7, 128]\<rparr> = Inr b \<and>
        b = \<lparr>vtype = float32 2, bytes = [1, 2, 3, 4, 5, 6, 7, 128]\<rparr> \<and>
        cast_wrapper_run False False 0 (uint8 8) b =
          Inr \<lparr>vtype = uint8 8, bytes = [1, 2, 3, 4, 5, 6, 7, 128]\<rparr>)"
proof -
  let ?a = "\<lparr>vtype = uint8 8, bytes = [1, 2, 3, 4, 5, 6, 7, 128 :: byte]\<rparr>"
  have h: "\<not> is_mask (uint8 8)" "\<not> is_mask (float32 2)" "sizeof (uint8 8) = sizeof (float32 2)"
    "vtype ?a = uint8 8" "well_formed ?a"
    by (simp_all add: sizeof_def well_formed_def)
  from cast_round_trip [OF h, of 0 0] obtain b where
    "cast_wrapper_run False False 0 (float32 2) ?a = Inr b"
    "vtype b = float32 2" "bytes b = [1, 2, 3, 4, 5, 6, 7, 128]"
    "cast_wrapper_run False False 0 (uint8 8) b = Inr ?a"
    by auto
  moreover from this have "b = \<lparr>vtype = float32 2, bytes = [1, 2, 3, 4, 5, 6, 7, 128]\<rparr>"
    by (cases b) simp
  ultimately show ?thesis
    using h by (intro conjI exI [of _ b]) simp_all
qed

text \<open>
  C8. For every cast of a mask \<open>t\<close> of type \<open>T\<close> to a type \<open>R\<close> that is no mask, whatever
  the strategy argument, the source is stripped to its base vector \<open>t.unmask()\<close>, of type
  \<open>base_mask_vector_type<T>::type\<close>, and that vector is copied bit for bit into an \<open>R\<close>. The
  cast compiles exactly when \<open>R\<close> has the storage size of the base vector, the check of
  \<open>cast_memcpy\<close>: the size tags of \<open>R\<close> and \<open>T\<close> are not compared.
\<close>

theorem cast_wrapper_run_mask_to_vector:
  assumes "is_mask T" "\<not> is_mask R" "vtype t = T" "well_formed t"
  shows "\<exists>TT u. base_mask_vector_type T = Inr TT \<and> unmask t = Inr u \<and>
           vtype u = TT \<and> bytes u = bytes t \<and> sizeof TT = sizeof T \<and>
           cast_wrapper_run (is_mask R) (is_mask T) ov R t =
             (if sizeof R = sizeof TT then Inr \<lparr>vtype = R, bytes = bytes u\<rparr>
              else Inl (StaticAssert ''Size mismatch''))"
proof -
  from assms(1) obtain TT where TT: "base_mask_vector_type T = Inr TT" "unmask_type T = Some TT"
    using base_mask_vector_type_mask by blast
  let ?u = "\<lparr>vtype = TT, bytes = bytes t\<rparr>"
  have u: "unmask t = Inr ?u"
    using TT assms(3) by (simp add: unmask_mask)
  have s: "sizeof TT = sizeof T"
    using TT by (simp add: unmask_type_sizeof)
  have "well_formed ?u"
    using assms(3,4) s by (simp add: well_formed_def)
  then have "cast_memcpy R ?u =
      (if sizeof R = sizeof TT then Inr \<lparr>vtype = R, bytes = bytes ?u\<rparr>
       else Inl (StaticAssert ''Size mismatch''))"
    by (simp add: cast_memcpy_well_formed cast_memcpy_mismatch)
  then have "cast_wrapper_run (is_mask R) (is_mask T) ov R t =
      (if sizeof R = sizeof TT then Inr \<lparr>vtype = R, bytes = bytes ?u\<rparr>
       else Inl (StaticAssert ''Size mismatch''))"
    using assms TT by (simp add: cast_memcpy_unmask_mask)
  with TT u s show ?thesis
    by (intro exI [of _ TT] exI [of _ ?u]) simp
qed

theorem cast_wrapper_run_mask_to_vector_witness:
  "is_mask (mask_int8 4) \<and> \<not> is_mask (uint32 1) \<and>
   well_formed \<lparr>vtype = mask_int8 4, bytes = [255, 0, 255, 0]\<rparr> \<and>
   elem_bytes (uint32 1) \<noteq> elem_bytes (mask_int8 4) \<and>
   cast_wrapper_run False True 0 (uint32 1) \<lparr>vtype = mask_int8 4, bytes = [255, 0, 255, 0]\<rparr> =
     Inr \<lparr>vtype = uint32 1, bytes = [255, 0, 255, 0]\<rparr> \<and>
   cast_wrapper_run False True 0 (uint16 1) \<lparr>vtype = mask_int8 4, bytes = [255, 0, 255, 0]\<rparr> =
     Inl (StaticAssert ''Size mismatch'')"
proof -
  let ?t = "\<lparr>vtype = mask_int8 4, bytes = [255, 0, 255, 0 :: byte]\<rparr>"
  have h: "is_mask (mask_int8 4)" "vtype ?t = mask_int8 4" "well_formed ?t"
    by (simp_all add: well_formed_def sizeof_def)
  have n: "\<not> is_mask (uint32 1)" "\<not> is_mask (uint16 1)"
    by simp_all
  have s: "sizeof (uint32 1) = 4" "sizeof (uint16 1) = 2" "sizeof (uint8 4) = 4"
    by (simp_all add: sizeof_def)
  from cast_wrapper_run_mask_to_vector [OF h(1) n(1) h(2,3), of 0] s
  have ok: "cast_wrapper_run False True 0 (uint32 1) ?t =
      Inr \<lparr>vtype = uint32 1, bytes = [255, 0, 255, 0]\<rparr>"
    by auto
  from cast_wrapper_run_mask_to_vector [OF h(1) n(2) h(2,3), of 0] s
  have bad: "cast_wrapper_run False True 0 (uint16 1) ?t = Inl (StaticAssert ''Size mismatch'')"
    by auto
  from ok bad h show ?thesis
    by simp
qed

section \<open>Casts between masks\<close>

lemma cast_memcpy_result:
  "cast_memcpy R t =
     (if sizeof R = sizeof (vtype t) then Inr \<lparr>vtype = R, bytes = take (sizeof R) (bytes t)\<rparr>
      else Inl (StaticAssert ''Size mismatch''))"
  by (simp add: cast_memcpy_def SIMDPP_STATIC_ASSERT_def)

lemma mask_strategies:
  assumes R: "is_mask R" and T: "is_mask (vtype t)"
  shows "sizeof R \<noteq> sizeof (vtype t) \<Longrightarrow>
           cast_memcpy R t = Inl (StaticAssert ''Size mismatch'') \<and>
           cast_memcpy_unmask R t = Inl (StaticAssert ''Size mismatch'') \<and>
           cast_memcpy_remask R t = Inl (StaticAssert ''Size mismatch'')"
    and "sizeof R = sizeof (vtype t) \<Longrightarrow>
           (\<exists>r. cast_memcpy R t = Inr r \<and> vtype r = R) \<and>
           (\<exists>r. cast_memcpy_unmask R t = Inr r \<and> vtype r = R) \<and>
           (\<exists>r. cast_memcpy_remask R t = Inr r \<and> vtype r = R)"
proof -
  from R obtain RR where RR: "unmask_type R = Some RR"
    using base_mask_vector_type_mask by blast
  from T obtain B where B: "unmask_type (vtype t) = Some B"
    using base_mask_vector_type_mask by blast
  then have sB: "sizeof B = sizeof (vtype t)"
    by (rule unmask_type_sizeof)
  show "cast_memcpy R t = Inl (StaticAssert ''Size mismatch'') \<and>
        cast_memcpy_unmask R t = Inl (StaticAssert ''Size mismatch'') \<and>
        cast_memcpy_remask R t = Inl (StaticAssert ''Size mismatch'')"
    if "sizeof R \<noteq> sizeof (vtype t)"
    using that sB
    by (simp add: cast_memcpy_unmask_mask [OF B] cast_memcpy_remask_mask(1) [OF RR B]
          cast_memcpy_result)
  show "(\<exists>r. cast_memcpy R t = Inr r \<and> vtype r = R) \<and>
        (\<exists>r. cast_memcpy_unmask R t = Inr r \<and> vtype r = R) \<and>
        (\<exists>r. cast_memcpy_remask R t = Inr r \<and> vtype r = R)"
    if "sizeof R = sizeof (vtype t)"
    using that sB cast_memcpy_remask_mask(2) [OF RR B]
    by (simp add: cast_memcpy_unmask_mask [OF B] cast_memcpy_result)
qed

text \<open>
  C4. For every pair of mask types \<open>R\<close> and \<open>T\<close> and each of the three strategies: if
  their size tags differ, the cast of a \<open>T\<close> to \<open>R\<close> fails to compile with the message
  "Conversions between masks with different element size is not allowed"; if their size
  tags are equal, the cast compiles and yields a result of the declared type \<open>R\<close>.
\<close>

theorem cast_wrapper_run_mask_to_mask:
  assumes "is_mask R" "is_mask T" "vtype t = T"
    and "ov \<in> {CAST_MASK_MEMCPY, CAST_MASK_UNMASK, CAST_MASK_REMASK}"
  shows "(size_tag R \<noteq> size_tag T \<longrightarrow>
            cast_wrapper_run (is_mask R) (is_mask T) ov R t =
              Inl (StaticAssert
                ''Conversions between masks with different element size is not allowed'')) \<and>
         (size_tag R = size_tag T \<longrightarrow>
            (\<exists>r. cast_wrapper_run (is_mask R) (is_mask T) ov R t = Inr r \<and> vtype r = R))"
proof -
  have m: "is_mask R" "is_mask (vtype t)"
    using assms by simp_all
  have tags: "size_tag R = size_tag (vtype t) \<longleftrightarrow> sizeof R = sizeof (vtype t)"
    using m by (rule size_tag_eq_mask)
  note ok = mask_strategies(2) [OF m]
  from assms(4) consider "ov = CAST_MASK_MEMCPY" | "ov = CAST_MASK_UNMASK" | "ov = CAST_MASK_REMASK"
    by auto
  then show ?thesis
  proof cases
    case 1
    show ?thesis
      using ok tags assms(1-3)
      by (auto simp: 1 cast_wrapper_run_true_true same_size_tag_mask SIMDPP_STATIC_ASSERT_def
            mask_size_message_def)
  next
    case 2
    show ?thesis
      using ok tags assms(1-3)
      by (auto simp: 2 cast_wrapper_run_true_true same_size_tag_mask SIMDPP_STATIC_ASSERT_def
            mask_size_message_def)
  next
    case 3
    show ?thesis
      using ok tags assms(1-3)
      by (auto simp: 3 cast_wrapper_run_true_true same_size_tag_mask SIMDPP_STATIC_ASSERT_def
            mask_size_message_def)
  qed
qed

theorem cast_wrapper_run_mask_to_mask_witness:
  "is_mask (mask_int16 2) \<and> is_mask (mask_float32 1) \<and> is_mask (mask_float32 2) \<and>
   CAST_MASK_UNMASK \<in> {CAST_MASK_MEMCPY, CAST_MASK_UNMASK, CAST_MASK_REMASK} \<and>
   CAST_MASK_REMASK \<in> {CAST_MASK_MEMCPY, CAST_MASK_UNMASK, CAST_MASK_REMASK} \<and>
   size_tag (mask_float32 2) \<noteq> size_tag (mask_float32 1) \<and>
   cast_wrapper_run True True CAST_MASK_UNMASK (mask_float32 2)
       \<lparr>vtype = mask_float32 1, bytes = [255, 255, 255, 255]\<rparr> =
     Inl (StaticAssert
       ''Conversions between masks with different element size is not allowed'') \<and>
   size_tag (mask_int16 2) = size_tag (mask_float32 1) \<and>
   (\<exists>r. cast_wrapper_run True True CAST_MASK_REMASK (mask_int16 2)
           \<lparr>vtype = mask_float32 1, bytes = [255, 255, 255, 255]\<rparr> = Inr r \<and>
        vtype r = mask_int16 2)"
proof -
  let ?t = "\<lparr>vtype = mask_float32 1, bytes = [255, 255, 255, 255 :: byte]\<rparr>"
  have ov: "CAST_MASK_UNMASK \<in> {CAST_MASK_MEMCPY, CAST_MASK_UNMASK, CAST_MASK_REMASK}"
    "CAST_MASK_REMASK \<in> {CAST_MASK_MEMCPY, CAST_MASK_UNMASK, CAST_MASK_REMASK}"
    by simp_all
  have t: "is_mask (mask_float32 1)" "vtype ?t = mask_float32 1"
    by simp_all
  have R: "is_mask (mask_float32 2)" "is_mask (mask_int16 2)"
    by simp_all
  have s: "size_tag (mask_float32 2) \<noteq> size_tag (mask_float32 1)"
    "size_tag (mask_int16 2) = size_tag (mask_float32 1)"
    by (simp_all add: sizeof_def)
  from cast_wrapper_run_mask_to_mask [OF R(1) t ov(1)] s
  have a: "cast_wrapper_run True True CAST_MASK_UNMASK (mask_float32 2) ?t =
     Inl (StaticAssert
       ''Conversions between masks with different element size is not allowed'')"
    by simp
  from cast_wrapper_run_mask_to_mask [OF R(2) t ov(2)] s
  have b: "\<exists>r. cast_wrapper_run True True CAST_MASK_REMASK (mask_int16 2) ?t = Inr r \<and>
        vtype r = mask_int16 2"
    by simp
  from a b s ov show ?thesis
    by simp
qed

section \<open>Lanes\<close>

lemma length_lanes [simp]: "length (lanes k n bs) = n"
  by (induction n arbitrary: bs) simp_all

lemma lanes_lengths: "length bs = n * k \<Longrightarrow> l \<in> set (lanes k n bs) \<Longrightarrow> length l = k"
proof (induction n arbitrary: bs)
  case 0
  then show ?case by simp
next
  case (Suc n)
  from Suc.prems(1) have rest: "length (drop k bs) = n * k"
    by simp
  from Suc.prems(2) consider "l = take k bs" | "l \<in> set (lanes k n (drop k bs))"
    by auto
  then show ?case
  proof cases
    case 1
    with Suc.prems(1) show ?thesis by simp
  next
    case 2
    with Suc.IH [OF rest] show ?thesis by simp
  qed
qed

lemma concat_lanes: "length bs = n * k \<Longrightarrow> concat (lanes k n bs) = bs"
  by (induction n arbitrary: bs) simp_all

lemma lanes_concat:
  "length ls = n \<Longrightarrow> (\<And>l. l \<in> set ls \<Longrightarrow> length l = k) \<Longrightarrow> lanes k n (concat ls) = ls"
proof (induction ls arbitrary: n)
  case Nil
  then show ?case by simp
next
  case (Cons l ls)
  then obtain n' where n: "n = Suc n'" "length ls = n'"
    by (cases n) auto
  from Cons.prems have "length l = k" by simp
  moreover from Cons.IH [OF n(2)] Cons.prems have "lanes k n' (concat ls) = ls" by simp
  ultimately show ?case using n by simp
qed

lemma length_concat_lanes:
  "(\<And>l. l \<in> set ls \<Longrightarrow> length l = k) \<Longrightarrow> length (concat ls) = length ls * k"
  by (induction ls) simp_all

lemma lanes_zero: "lanes k n (replicate (n * k) 0) = replicate n (replicate k 0)"
proof (induction n)
  case 0
  then show ?case by simp
next
  case (Suc n)
  have "replicate (Suc n * k) (0 :: byte) = replicate k 0 @ replicate (n * k) 0"
    by (simp add: replicate_add)
  with Suc show ?case by simp
qed

lemma lane_int_nonneg: "0 \<le> lane_int x"
  by (induction x) simp_all

lemma lane_int_zero [simp]: "lane_int (replicate k 0) = 0"
  by (induction k) simp_all

lemma lane_int_eq_zero: "lane_int x = 0 \<longleftrightarrow> x = replicate (length x) 0"
proof (induction x)
  case Nil
  then show ?case by simp
next
  case (Cons b x)
  have "0 \<le> uint b" "0 \<le> lane_int x"
    by (simp_all add: lane_int_nonneg)
  then have "uint b + 256 * lane_int x = 0 \<longleftrightarrow> uint b = 0 \<and> lane_int x = 0"
    by linarith
  with Cons show ?case by (auto simp: uint_0_iff)
qed

lemma mask_lane_length [simp]: "length (mask_lane k b) = k"
  by (simp add: mask_lane_def)

lemma mask_lane_eq: "0 < k \<Longrightarrow> mask_lane k a = mask_lane k b \<longleftrightarrow> a = b"
  by (cases a; cases b) (auto simp: mask_lane_def)

lemma float_neq_zero:
  assumes "m < w - 1"
  shows "float_neq w m x (replicate k 0) = (lane_int x mod 2 ^ (w - 1) \<noteq> 0)"
proof -
  have inf: "(0 :: int) < 2 ^ (w - 1) - 2 ^ m"
    using assms by simp
  have "x \<noteq> replicate k 0" if "lane_int x mod 2 ^ (w - 1) \<noteq> 0"
    using that by auto
  with inf show ?thesis
    by (auto simp: float_neq_def Let_def)
qed

lemma lane_neq_zero:
  assumes "mask_of V = Some M" "length x = elem_bytes V"
  shows "lane_neq V x (replicate (elem_bytes V) 0) = lane_nonzero V x"
  using assms lane_int_eq_zero [of x]
  by (cases V) (simp_all add: float_neq_zero)

lemma elem_bytes_mask_pos: "is_mask T \<Longrightarrow> 0 < elem_bytes T"
  by (cases T) simp_all

lemma map2_replicate:
  "length xs = n \<Longrightarrow> map2 f xs (replicate n z) = map (\<lambda>x. f x z) xs"
  by (simp add: zip_replicate2)

text \<open>The storage that \<open>cmp_neq\<close> with the zero vector builds, and its lanes.\<close>

lemma rebuilt_lanes:
  assumes V: "mask_of V = Some M" "elem_bytes M = elem_bytes V" "num_lanes M = num_lanes V"
    and len: "length bs = sizeof V"
  shows "cmp_neq \<lparr>vtype = V, bytes = bs\<rparr> (make_zero V) =
           Inr \<lparr>vtype = M,
                 bytes = concat (map (\<lambda>x. mask_lane (elem_bytes V) (lane_nonzero V x))
                                   (lanes (elem_bytes V) (num_lanes V) bs))\<rparr>"
    and "lanes_of \<lparr>vtype = M,
                    bytes = concat (map (\<lambda>x. mask_lane (elem_bytes V) (lane_nonzero V x))
                                      (lanes (elem_bytes V) (num_lanes V) bs))\<rparr> =
           map (\<lambda>x. mask_lane (elem_bytes V) (lane_nonzero V x))
             (lanes (elem_bytes V) (num_lanes V) bs)"
    and "length (concat (map (\<lambda>x. mask_lane (elem_bytes V) (lane_nonzero V x))
                           (lanes (elem_bytes V) (num_lanes V) bs))) = sizeof M"
proof -
  let ?k = "elem_bytes V" and ?n = "num_lanes V"
  let ?ls = "lanes ?k ?n bs"
  have len': "length bs = ?n * ?k"
    using len by (simp add: sizeof_def)
  have z: "lanes_of (make_zero V) = replicate ?n (replicate ?k 0)"
    by (simp add: lanes_of_def make_zero_def sizeof_def lanes_zero)
  have "map2 (\<lambda>x y. mask_lane ?k (lane_neq V x y)) ?ls (replicate ?n (replicate ?k 0)) =
        map (\<lambda>x. mask_lane ?k (lane_neq V x (replicate ?k 0))) ?ls"
    by (rule map2_replicate) simp
  also have "\<dots> = map (\<lambda>x. mask_lane ?k (lane_nonzero V x)) ?ls"
    using lanes_lengths [OF len'] V(1) by (intro map_cong refl) (simp add: lane_neq_zero)
  finally show "cmp_neq \<lparr>vtype = V, bytes = bs\<rparr> (make_zero V) =
           Inr \<lparr>vtype = M, bytes = concat (map (\<lambda>x. mask_lane ?k (lane_nonzero V x)) ?ls)\<rparr>"
    using V z by (simp add: cmp_neq_vector make_zero_def lanes_of_def)
  show "lanes_of \<lparr>vtype = M, bytes = concat (map (\<lambda>x. mask_lane ?k (lane_nonzero V x)) ?ls)\<rparr> =
           map (\<lambda>x. mask_lane ?k (lane_nonzero V x)) ?ls"
    using V by (simp add: lanes_of_def) (rule lanes_concat, auto)
  have "length (concat (map (\<lambda>x. mask_lane ?k (lane_nonzero V x)) ?ls)) =
          length (map (\<lambda>x. mask_lane ?k (lane_nonzero V x)) ?ls) * ?k"
    by (rule length_concat_lanes) auto
  then show "length (concat (map (\<lambda>x. mask_lane ?k (lane_nonzero V x)) ?ls)) = sizeof M"
    using V by (simp add: sizeof_def)
qed

section \<open>Rebuilding a mask\<close>

text \<open>
  C5. In \<open>cast_memcpy_remask\<close>, for every bit pattern of the source: the raw vector
  \<open>rr\<close>, the bits of the source copied into the base vector type \<open>RR\<close> of the
  destination mask \<open>R\<close>, is compared lane by lane with the all-zero vector of type \<open>RR\<close>
  by \<open>cmp_neq\<close>, and the result is a mask of type \<open>R\<close> in which a lane is true exactly
  when the value of that lane of \<open>rr\<close> is not zero, and false when it is zero.
\<close>

theorem cast_memcpy_remask_lanes:
  assumes "is_mask R" "is_mask T" "vtype t = T" "well_formed t" "sizeof R = sizeof T"
  shows "\<exists>RR u rr m. base_mask_vector_type R = Inr RR \<and> unmask t = Inr u \<and>
           cast_memcpy RR u = Inr rr \<and> vtype rr = RR \<and> bytes rr = bytes t \<and>
           cmp_neq rr (make_zero RR) = Inr m \<and>
           cast_memcpy_remask R t = Inr m \<and> vtype m = R \<and> valid_mask m \<and>
           mask_lanes m = map (lane_nonzero RR) (lanes_of rr)"
proof -
  from assms(1) obtain RR where RR: "base_mask_vector_type R = Inr RR" "unmask_type R = Some RR"
    using base_mask_vector_type_mask by blast
  then have shape: "mask_of RR = Some R" "elem_bytes R = elem_bytes RR"
    "num_lanes R = num_lanes RR" "sizeof RR = sizeof R"
    by (simp_all add: unmask_type_shape unmask_type_sizeof)
  from assms(2,3) obtain B where B: "unmask_type (vtype t) = Some B"
    using base_mask_vector_type_mask by blast
  then have sB: "sizeof B = sizeof T"
    using assms(3) by (simp add: unmask_type_sizeof)
  let ?u = "\<lparr>vtype = B, bytes = bytes t\<rparr>"
  let ?rr = "\<lparr>vtype = RR, bytes = bytes t\<rparr>"
  let ?k = "elem_bytes RR"
  let ?ls = "lanes ?k (num_lanes RR) (bytes t)"
  let ?m = "\<lparr>vtype = R, bytes = concat (map (\<lambda>x. mask_lane ?k (lane_nonzero RR x)) ?ls)\<rparr>"
  have len: "length (bytes t) = sizeof RR"
    using assms(3-5) shape by (simp add: well_formed_def)
  have u: "unmask t = Inr ?u"
    using B by (rule unmask_mask)
  have "well_formed ?u"
    using len shape sB assms(5) by (simp add: well_formed_def)
  then have rr: "cast_memcpy RR ?u = Inr ?rr"
    using shape sB assms(5) by (simp add: cast_memcpy_well_formed)
  note rebuilt = rebuilt_lanes [OF shape(1-3) len]
  have remask: "cast_memcpy_remask R t = Inr ?m"
    using cast_memcpy_remask_mask(1) [OF RR(2) B] assms(3,5) len rebuilt(1) by simp
  have k: "0 < ?k"
    using elem_bytes_mask_pos [OF assms(1)] shape by simp
  have lanes_m: "lanes_of ?m = map (\<lambda>x. mask_lane ?k (lane_nonzero RR x)) ?ls"
    by (rule rebuilt(2))
  have either: "mask_lane ?k b = mask_lane ?k True \<or> mask_lane ?k b = mask_lane ?k False" for b
    by (cases b) simp_all
  have valid: "valid_mask ?m"
    using assms(1) shape rebuilt(3) lanes_m either
    by (simp add: valid_mask_def well_formed_def list_all_iff)
  have pattern: "mask_lanes ?m = map (lane_nonzero RR) (lanes_of ?rr)"
    using shape k lanes_m by (simp add: mask_lanes_def lanes_of_def mask_lane_eq)
  from RR(1) u rr rebuilt(1) remask valid pattern show ?thesis
    by (intro exI [of _ RR] exI [of _ ?u] exI [of _ ?rr] exI [of _ ?m]) simp
qed

text \<open>
  The witness is the scenario of the spec: an 8-lane 32-bit integer mask, remask-cast
  from an 8-lane 32-bit float mask that holds true, false, true, true, false, false,
  true, false.
\<close>

theorem cast_memcpy_remask_lanes_witness:
  "is_mask (mask_int32 8) \<and> is_mask (mask_float32 8) \<and>
   sizeof (mask_int32 8) = sizeof (mask_float32 8) \<and>
   well_formed
     \<lparr>vtype = mask_float32 8,
       bytes = [255, 255, 255, 255, 0, 0, 0, 0, 255, 255, 255, 255, 255, 255, 255, 255,
                0, 0, 0, 0, 0, 0, 0, 0, 255, 255, 255, 255, 0, 0, 0, 0]\<rparr> \<and>
   (\<exists>m. cast_memcpy_remask (mask_int32 8)
           \<lparr>vtype = mask_float32 8,
             bytes = [255, 255, 255, 255, 0, 0, 0, 0, 255, 255, 255, 255, 255, 255, 255, 255,
                      0, 0, 0, 0, 0, 0, 0, 0, 255, 255, 255, 255, 0, 0, 0, 0]\<rparr> = Inr m \<and>
        vtype m = mask_int32 8 \<and>
        mask_lanes m = [True, False, True, True, False, False, True, False])"
proof -
  let ?bs = "[255, 255, 255, 255, 0, 0, 0, 0, 255, 255, 255, 255, 255, 255, 255, 255,
              0, 0, 0, 0, 0, 0, 0, 0, 255, 255, 255, 255, 0, 0, 0, 0 :: byte]"
  let ?t = "\<lparr>vtype = mask_float32 8, bytes = ?bs\<rparr>"
  have h: "is_mask (mask_int32 8)" "is_mask (mask_float32 8)" "vtype ?t = mask_float32 8"
    "well_formed ?t" "sizeof (mask_int32 8) = sizeof (mask_float32 8)"
    by (simp_all add: well_formed_def sizeof_def)
  have lanes: "map (lane_nonzero (uint32 8)) (lanes_of \<lparr>vtype = uint32 8, bytes = ?bs\<rparr>) =
      [True, False, True, True, False, False, True, False]"
    by code_simp
  from cast_memcpy_remask_lanes [OF h] obtain RR rr m where
    RR: "base_mask_vector_type (mask_int32 8) = Inr RR"
    and rr: "vtype rr = RR" "bytes rr = ?bs"
    and m: "cast_memcpy_remask (mask_int32 8) ?t = Inr m" "vtype m = mask_int32 8"
      "mask_lanes m = map (lane_nonzero RR) (lanes_of rr)"
    by auto
  from RR have "RR = uint32 8" by simp
  with rr have "rr = \<lparr>vtype = uint32 8, bytes = ?bs\<rparr>"
    by (cases rr) simp
  with m lanes \<open>RR = uint32 8\<close> have
    "mask_lanes m = [True, False, True, True, False, False, True, False]"
    by simp
  with m h show ?thesis
    by (intro conjI exI [of _ m]) simp_all
qed

lemma replicate_2: "replicate 2 x = [x, x]"
  by (simp add: numeral_eq_Suc)

lemma replicate_4: "replicate 4 x = [x, x, x, x]"
  by (simp add: numeral_eq_Suc)

lemma replicate_8: "replicate 8 x = [x, x, x, x, x, x, x, x]"
  by (simp add: numeral_eq_Suc)

lemma lane_nonzero_mask_lane:
  assumes "mask_of V = Some M"
  shows "lane_nonzero V (mask_lane (elem_bytes V) b) = b"
proof (cases b)
  case False
  then show ?thesis by (cases V) (simp_all add: mask_lane_def)
next
  case True
  from assms True show ?thesis
    by (cases V) (simp_all add: mask_lane_def replicate_2 replicate_4 replicate_8)
qed

text \<open>
  C6, as the spec states it: a mask cast to its base vector and that vector remask-cast
  back yields the original pattern. The second cast does not exist: the vector is no mask,
  so a cast of it to the mask type is \<open>cast_wrapper<true, false, CAST_MASK_REMASK>\<close>,
  which fails to compile.
\<close>

theorem mask_vector_mask_counterexample:
  "cast_wrapper_run (is_mask (uint32 4)) (is_mask (mask_int32 4)) CAST_MASK_REMASK (uint32 4)
       \<lparr>vtype = mask_int32 4,
         bytes = [255, 255, 255, 255, 0, 0, 0, 0, 255, 255, 255, 255, 0, 0, 0, 0]\<rparr> =
     Inr \<lparr>vtype = uint32 4,
           bytes = [255, 255, 255, 255, 0, 0, 0, 0, 255, 255, 255, 255, 0, 0, 0, 0]\<rparr> \<and>
   cast_wrapper_run (is_mask (mask_int32 4)) (is_mask (uint32 4)) CAST_MASK_REMASK (mask_int32 4)
       \<lparr>vtype = uint32 4,
         bytes = [255, 255, 255, 255, 0, 0, 0, 0, 255, 255, 255, 255, 0, 0, 0, 0]\<rparr> =
     Inl (StaticAssert ''Conversion from non-mask type to a mask type is not allowed'')"
  by code_simp

text \<open>
  C6, amended: for every mask type \<open>M\<close> and every mask \<open>m\<close> of type \<open>M\<close> whose lanes are
  each all ones or all zeros, the cast of \<open>m\<close> to its base vector type yields the vector
  with the bits of \<open>m\<close>; rebuilding a mask from that vector, by \<open>cmp_neq\<close> with the zero
  vector, yields \<open>m\<close> again, lane for lane; and so does the cast of \<open>m\<close> from \<open>M\<close> to \<open>M\<close>
  with the remask strategy, which unmasks, copies and rebuilds. A cast of the vector
  itself to \<open>M\<close> is rejected, whatever the strategy.
\<close>

theorem mask_round_trip:
  assumes "valid_mask m" "vtype m = M"
  shows "\<exists>B v. base_mask_vector_type M = Inr B \<and>
           cast_wrapper_run (is_mask B) (is_mask M) ov B m = Inr v \<and>
           vtype v = B \<and> bytes v = bytes m \<and>
           cmp_neq v (make_zero B) = Inr m \<and>
           cast_wrapper_run (is_mask M) (is_mask M) CAST_MASK_REMASK M m = Inr m \<and>
           cast_wrapper_run (is_mask M) (is_mask B) ov' M v =
             Inl (StaticAssert ''Conversion from non-mask type to a mask type is not allowed'')"
proof -
  from assms have M: "is_mask M" and wf: "well_formed m"
    and lanes: "\<And>l. l \<in> set (lanes_of m) \<Longrightarrow>
                  l = mask_lane (elem_bytes M) True \<or> l = mask_lane (elem_bytes M) False"
    by (auto simp: valid_mask_def list_all_iff)
  from M obtain B where B: "base_mask_vector_type M = Inr B" "unmask_type M = Some B"
    using base_mask_vector_type_mask by blast
  then have shape: "mask_of B = Some M" "elem_bytes M = elem_bytes B"
    "num_lanes M = num_lanes B" "sizeof B = sizeof M" "\<not> is_mask B"
    by (simp_all add: unmask_type_shape unmask_type_sizeof)
  let ?v = "\<lparr>vtype = B, bytes = bytes m\<rparr>"
  let ?k = "elem_bytes B"
  let ?ls = "lanes ?k (num_lanes B) (bytes m)"
  have len: "length (bytes m) = sizeof B"
    using wf assms(2) shape by (simp add: well_formed_def)
  have len': "length (bytes m) = num_lanes B * ?k"
    using len by (simp add: sizeof_def)
  have "well_formed ?v"
    using len by (simp add: well_formed_def)
  then have to_vector: "cast_wrapper_run (is_mask B) (is_mask M) ov B m = Inr ?v"
    using M shape B(2) assms(2)
    by (simp add: cast_memcpy_unmask_mask cast_memcpy_well_formed)
  have same: "mask_lane ?k (lane_nonzero B x) = x" if "x \<in> set ?ls" for x
  proof -
    from that have "x \<in> set (lanes_of m)"
      using assms(2) shape by (simp add: lanes_of_def)
    from lanes [OF this] shape(2) consider "x = mask_lane ?k True" | "x = mask_lane ?k False"
      by auto
    then show ?thesis
      by cases (simp_all add: lane_nonzero_mask_lane [OF shape(1)])
  qed
  have "concat (map (\<lambda>x. mask_lane ?k (lane_nonzero B x)) ?ls) = concat (map (\<lambda>x. x) ?ls)"
    using same by (intro arg_cong [of _ _ concat] map_cong refl) simp
  also have "\<dots> = bytes m"
    using len' by (simp add: concat_lanes)
  finally have rebuilt: "cmp_neq ?v (make_zero B) = Inr m"
    using rebuilt_lanes(1) [OF shape(1-3) len] assms(2) by simp
  have tag: "same_size_tag M M = Inr True"
    using M by (simp add: same_size_tag_mask)
  have "cast_memcpy_remask M m = cmp_neq \<lparr>vtype = B, bytes = take (sizeof B) (bytes m)\<rparr> (make_zero B)"
    using cast_memcpy_remask_mask(1) [OF B(2), of m B] B(2) assms(2) by simp
  with rebuilt len have "cast_memcpy_remask M m = Inr m"
    by simp
  then have remask: "cast_wrapper_run (is_mask M) (is_mask M) CAST_MASK_REMASK M m = Inr m"
    using M tag assms(2)
    by (simp add: cast_wrapper_run_true_true SIMDPP_STATIC_ASSERT_def)
  have rejected: "cast_wrapper_run (is_mask M) (is_mask B) ov' M ?v =
      Inl (StaticAssert ''Conversion from non-mask type to a mask type is not allowed'')"
    using M shape by (simp add: non_mask_message_def)
  from B(1) to_vector rebuilt remask rejected show ?thesis
    by (intro exI [of _ B] exI [of _ ?v]) simp
qed

theorem mask_round_trip_witness:
  "valid_mask \<lparr>vtype = mask_float32 4,
               bytes = [255, 255, 255, 255, 0, 0, 0, 0, 255, 255, 255, 255, 0, 0, 0, 0]\<rparr> \<and>
   cast_wrapper_run False True CAST_MASK_MEMCPY (float32 4)
       \<lparr>vtype = mask_float32 4,
         bytes = [255, 255, 255, 255, 0, 0, 0, 0, 255, 255, 255, 255, 0, 0, 0, 0]\<rparr> =
     Inr \<lparr>vtype = float32 4,
           bytes = [255, 255, 255, 255, 0, 0, 0, 0, 255, 255, 255, 255, 0, 0, 0, 0]\<rparr> \<and>
   cast_wrapper_run True True CAST_MASK_REMASK (mask_float32 4)
       \<lparr>vtype = mask_float32 4,
         bytes = [255, 255, 255, 255, 0, 0, 0, 0, 255, 255, 255, 255, 0, 0, 0, 0]\<rparr> =
     Inr \<lparr>vtype = mask_float32 4,
           bytes = [255, 255, 255, 255, 0, 0, 0, 0, 255, 255, 255, 255, 0, 0, 0, 0]\<rparr> \<and>
   mask_lanes \<lparr>vtype = mask_float32 4,
                bytes = [255, 255, 255, 255, 0, 0, 0, 0, 255, 255, 255, 255, 0, 0, 0, 0]\<rparr> =
     [True, False, True, False]"
proof -
  let ?bs = "[255, 255, 255, 255, 0, 0, 0, 0, 255, 255, 255, 255, 0, 0, 0, 0 :: byte]"
  let ?m = "\<lparr>vtype = mask_float32 4, bytes = ?bs\<rparr>"
  have v: "valid_mask ?m"
    by code_simp
  have p: "mask_lanes ?m = [True, False, True, False]"
    by code_simp
  from mask_round_trip [OF v, of "mask_float32 4" CAST_MASK_MEMCPY] obtain B u where
    B: "base_mask_vector_type (mask_float32 4) = Inr B"
    and u: "cast_wrapper_run (is_mask B) True CAST_MASK_MEMCPY B ?m = Inr u"
      "vtype u = B" "bytes u = ?bs"
    and r: "cast_wrapper_run True True CAST_MASK_REMASK (mask_float32 4) ?m = Inr ?m"
    by auto
  from B have "B = float32 4" by simp
  with u have "cast_wrapper_run False True CAST_MASK_MEMCPY (float32 4) ?m =
      Inr \<lparr>vtype = float32 4, bytes = ?bs\<rparr>"
    by (cases u) simp
  with v p r show ?thesis
    by simp
qed

end
